theory Spec2Isabelle
  imports Main "HOL-Library.Word" "HOL-Library.Signed_Division" "HOL-Library.Sublist"
begin

section \<open>Data model\<close>

text \<open>
  Go's \<open>int64\<close> is a 64-bit word read as two's complement: \<open>+\<close> wraps around and
  \<open>sdiv\<close> truncates towards zero, as Go's \<open>/\<close> does. A \<open>time.Duration\<close> is an
  \<open>int64\<close> count of nanoseconds, and \<open>time.Second\<close> is 1000000000 of them.
\<close>

type_synonym int64 = "64 word"

type_synonym Duration = "64 word"

definition Second :: Duration where
  "Second = 1000000000"

text \<open>
  \<open>int64(timeout/time.Second)\<close>: the quotient of the two signed values, truncated
  towards zero. The divisor is the constant \<open>Second\<close>, so the quotient fits.
\<close>

definition seconds :: "Duration \<Rightarrow> int64" where
  "seconds timeout = word_of_int (sint timeout sdiv sint Second)"

text \<open>
  \<open>User\<close> as declared in the source. Go's \<open>int\<close> is kept as \<open>int\<close>: no arithmetic is
  done on the identifier here.
\<close>

record User =
  ID :: int
  FirstName :: string
  LastName :: string
  Username :: string

text \<open>
  \<open>Update\<close>: the envelope returned by the transport. The three pointer fields are
  \<open>None\<close> for Go's \<open>nil\<close>. The types \<open>Message\<close>, \<open>Query\<close> and \<open>Callback\<close> are not
  inspected by the poll loop and stay type parameters.
\<close>

record ('m, 'q, 'c) Update =
  ID :: int64
  Payload :: "'m option"
  Callback :: "'c option"
  Query :: "'q option"

text \<open>
  A channel the loop sends on is either \<open>nil\<close> (\<open>None\<close>) or an open channel, seen
  through the sequence of values sent on it so far, oldest first. A send blocks until
  the channel takes the value; the model records the value at the moment the send
  completes, and every send on an open channel is taken to complete. The loop never
  closes a channel, and a channel closed by someone else is not modelled.
\<close>

type_synonym 'a chan = "'a list option"

record ('m, 'q, 'c) Bot =
  Token :: string
  Identity :: User
  Messages :: "'m chan"
  Queries :: "'q chan"
  Callbacks :: "'c chan"
  MultiWait :: Duration

section \<open>The poll loop\<close>

text \<open>
  What \<open>poll\<close> and \<open>Listen\<close> do to the outside, in the order they do it: a call of
  \<open>getUpdates\<close> with its three arguments, a call of \<open>log.Println\<close> with its
  operands, a call of \<open>time.Sleep\<close> with its duration, and the \<open>wg.Done()\<close> that
  \<open>Listen\<close> defers.
\<close>

datatype effect =
  GetUpdates string int64 int64
| Println "string list"
| Sleep Duration
| Done

text \<open>
  Everything the loop reads and changes: its local \<open>latestUpdate\<close>, the three channels
  it was given, and the effects so far, oldest first.
\<close>

record ('m, 'q, 'c) world =
  latestUpdate :: int64
  messages :: "'m chan"
  queries :: "'q chan"
  callbacks :: "'c chan"
  trace :: "effect list"

fun calls_of :: "effect list \<Rightarrow> (string \<times> int64 \<times> int64) list" where
  "calls_of [] = []"
| "calls_of (GetUpdates token offset secs # es) = (token, offset, secs) # calls_of es"
| "calls_of (_ # es) = calls_of es"

fun sleeps_of :: "effect list \<Rightarrow> Duration list" where
  "sleeps_of [] = []"
| "sleeps_of (Sleep d # es) = d # sleeps_of es"
| "sleeps_of (_ # es) = sleeps_of es"

text \<open>
  What the loop meets from the outside, by iteration number: whether a value is ready
  on \<open>stop\<close> when the \<open>select\<close> of that iteration runs, and what the \<open>getUpdates\<close>
  call of that iteration returns: \<open>Inl\<close> the text of a non-nil error, \<open>Inr\<close> the
  updates otherwise.
\<close>

record ('m, 'q, 'c) env =
  stop_ready :: "nat \<Rightarrow> bool"
  getUpdates :: "nat \<Rightarrow> string + ('m, 'q, 'c) Update list"

text \<open>
  \<open>strings.Index s substr\<close>: the index of the first instance of \<open>substr\<close> in \<open>s\<close>, or
  \<open>-1\<close> if there is none.
\<close>

fun Index :: "string \<Rightarrow> string \<Rightarrow> int" where
  "Index [] substr = (if substr = [] then 0 else - 1)"
| "Index (c # cs) substr =
     (if prefix substr (c # cs) then 0
      else (let i = Index cs substr in if i < 0 then - 1 else i + 1))"

text \<open>
  The body of \<open>for _, update := range updates\<close> for one update. The \<open>continue\<close> of a
  \<open>nil\<close> channel leaves the body at once, so the assignment to \<open>latestUpdate\<close> at the
  end of the body is not reached on that path.
\<close>

definition route :: "('m, 'q, 'c) Update \<Rightarrow> ('m, 'q, 'c) world \<Rightarrow> ('m, 'q, 'c) world" where
  "route update w =
     (case Payload update of
        Some m \<Rightarrow>
          (case messages w of
             None \<Rightarrow> w
           | Some sent \<Rightarrow> w\<lparr>messages := Some (sent @ [m]), latestUpdate := Update.ID update\<rparr>)
      | None \<Rightarrow>
          (case Query update of
             Some q \<Rightarrow>
               (case queries w of
                  None \<Rightarrow> w
                | Some sent \<Rightarrow> w\<lparr>queries := Some (sent @ [q]), latestUpdate := Update.ID update\<rparr>)
           | None \<Rightarrow>
               (case Callback update of
                  Some c \<Rightarrow>
                    (case callbacks w of
                       None \<Rightarrow> w
                     | Some sent \<Rightarrow>
                         w\<lparr>callbacks := Some (sent @ [c]), latestUpdate := Update.ID update\<rparr>)
                | None \<Rightarrow> w\<lparr>latestUpdate := Update.ID update\<rparr>)))"

fun range_updates :: "('m, 'q, 'c) Update list \<Rightarrow> ('m, 'q, 'c) world \<Rightarrow> ('m, 'q, 'c) world" where
  "range_updates [] w = w"
| "range_updates (update # updates) w = range_updates updates (route update w)"

text \<open>The \<open>if err != nil\<close> block, up to its \<open>continue\<close>.\<close>

definition on_error :: "('m, 'q, 'c) Bot \<Rightarrow> string \<Rightarrow> ('m, 'q, 'c) world \<Rightarrow> ('m, 'q, 'c) world" where
  "on_error b err w =
     (let w1 = w\<lparr>trace := trace w @ [Println [''failed to get updates:'', err]]\<rparr>
      in if Index err ''terminated by other long poll or webhook'' > - 1
         then w1\<lparr>trace := trace w1 @
                   [Println [''applying sleep-lock for failover instances''], Sleep (MultiWait b)]\<rparr>
         else w1)"

text \<open>
  The \<open>default\<close> branch of the \<open>select\<close>: one call of \<open>getUpdates\<close> and the handling
  of what it returned. \<open>reply\<close> is that return value.
\<close>

definition fetch ::
  "('m, 'q, 'c) Bot \<Rightarrow> Duration \<Rightarrow> string + ('m, 'q, 'c) Update list \<Rightarrow>
   ('m, 'q, 'c) world \<Rightarrow> ('m, 'q, 'c) world" where
  "fetch b timeout reply w =
     (let w1 = w\<lparr>trace := trace w @ [GetUpdates (Token b) (latestUpdate w + 1) (seconds timeout)]\<rparr>
      in case reply of
           Inl err \<Rightarrow> on_error b err w1
         | Inr updates \<Rightarrow> range_updates updates w1)"

text \<open>
  The \<open>for\<close> loop of \<open>poll\<close>. \<open>i\<close> counts the iterations already done and selects
  what the outside answers. The loop returns only from the \<open>stop\<close> case of the
  \<open>select\<close>; a run that never returns has the value \<open>None\<close>.
\<close>

partial_function (option) loop ::
  "('m, 'q, 'c) env \<Rightarrow> ('m, 'q, 'c) Bot \<Rightarrow> Duration \<Rightarrow> nat \<Rightarrow> ('m, 'q, 'c) world \<Rightarrow>
   ('m, 'q, 'c) world option" where
  "loop e b timeout i w =
     (if stop_ready e i then Some w
      else loop e b timeout (Suc i) (fetch b timeout (getUpdates e i) w))"

text \<open>The world \<open>poll\<close> starts in: \<open>var latestUpdate int64\<close> is zero, nothing done yet.\<close>

definition start :: "'m chan \<Rightarrow> 'q chan \<Rightarrow> 'c chan \<Rightarrow> ('m, 'q, 'c) world" where
  "start ms qs cs =
     \<lparr>latestUpdate = 0, messages = ms, queries = qs, callbacks = cs, trace = []\<rparr>"

definition poll ::
  "('m, 'q, 'c) env \<Rightarrow> ('m, 'q, 'c) Bot \<Rightarrow> 'm chan \<Rightarrow> 'q chan \<Rightarrow> 'c chan \<Rightarrow> Duration \<Rightarrow>
   ('m, 'q, 'c) world option" where
  "poll e b ms qs cs timeout = loop e b timeout 0 (start ms qs cs)"

text \<open>\<open>Listen\<close>: the deferred \<open>wg.Done()\<close> runs when \<open>poll\<close> has returned.\<close>

definition Listen ::
  "('m, 'q, 'c) env \<Rightarrow> ('m, 'q, 'c) Bot \<Rightarrow> 'm chan \<Rightarrow> 'q chan \<Rightarrow> 'c chan \<Rightarrow> Duration \<Rightarrow>
   ('m, 'q, 'c) world option" where
  "Listen e b ms qs cs timeout =
     (case poll e b ms qs cs timeout of
        None \<Rightarrow> None
      | Some w \<Rightarrow> Some (w\<lparr>trace := trace w @ [Done]\<rparr>))"

text \<open>
  The world after \<open>n\<close> further iterations, starting with iteration \<open>i\<close>, that each
  took the \<open>default\<close> branch.
\<close>

fun iterations ::
  "('m, 'q, 'c) env \<Rightarrow> ('m, 'q, 'c) Bot \<Rightarrow> Duration \<Rightarrow> nat \<Rightarrow> nat \<Rightarrow> ('m, 'q, 'c) world \<Rightarrow>
   ('m, 'q, 'c) world" where
  "iterations e b timeout i 0 w = w"
| "iterations e b timeout i (Suc n) w =
     iterations e b timeout (Suc i) n (fetch b timeout (getUpdates e i) w)"

section \<open>What each channel is due\<close>

text \<open>
  The functions of this section are not in the source; they state what delivery is
  measured against. \<open>returned e i n\<close> is every update that the \<open>n\<close> calls of
  \<open>getUpdates\<close> from iteration \<open>i\<close> on returned, in the order returned; a call
  that failed returned none. The other three pick, from a sequence of updates, the
  values the message, query and callback channels are due, in order: an update
  counts for the first of message, inline query, callback that it carries.
\<close>

definition returned :: "('m, 'q, 'c) env \<Rightarrow> nat \<Rightarrow> nat \<Rightarrow> ('m, 'q, 'c) Update list" where
  "returned e i n =
     concat (map (\<lambda>k. case getUpdates e k of Inl err \<Rightarrow> [] | Inr updates \<Rightarrow> updates) [i..<i + n])"

definition message_events :: "('m, 'q, 'c) Update list \<Rightarrow> 'm list" where
  "message_events updates = List.map_filter Payload updates"

definition query_events :: "('m, 'q, 'c) Update list \<Rightarrow> 'q list" where
  "query_events updates =
     List.map_filter (\<lambda>u. if Payload u = None then Query u else None) updates"

definition callback_events :: "('m, 'q, 'c) Update list \<Rightarrow> 'c list" where
  "callback_events updates =
     List.map_filter (\<lambda>u. if Payload u = None \<and> Query u = None then Callback u else None) updates"

section \<open>Construction and \<open>SendPhoto\<close>\<close>

text \<open>
  \<open>NewBot\<close>. The function \<open>getMe\<close> is not among the source files, so it is a
  parameter: given the token it returns a user and an error, \<open>None\<close> for \<open>nil\<close>.
  The result is the pair \<open>(*Bot, error)\<close>; the fields the composite literal does not
  name have their zero values.
\<close>

definition NewBot ::
  "(string \<Rightarrow> User \<times> string option) \<Rightarrow> string \<Rightarrow> ('m, 'q, 'c) Bot option \<times> string option" where
  "NewBot getMe token =
     (case getMe token of
        (user, Some err) \<Rightarrow> (None, Some err)
      | (user, None) \<Rightarrow>
          (Some \<lparr>Token = token, Identity = user, Messages = None, Queries = None,
                 Callbacks = None, MultiWait = 0\<rparr>,
           None))"

text \<open>
  The declarations of \<open>File\<close> and \<open>Message\<close> are not among the source files. Of
  \<open>File\<close>, \<open>SendPhoto\<close> reads the fields \<open>FileID\<close> and \<open>filename\<close>; of
  \<open>Message\<close>, the field \<open>Photo\<close>, a slice whose elements have a \<open>File\<close>:
  the declared \<open>Thumbnail\<close>. Whatever other fields the two structs have is the
  extension of the record (\<open>'z\<close>, \<open>'y\<close>), copied along with the struct.
  \<open>Photo\<close> and \<open>Thumbnail\<close> embed a \<open>File\<close>, as declared.
\<close>

record File =
  FileID :: string
  filename :: string

record 'z Photo =
  File :: "'z File_scheme"
  Data :: string
  Caption :: string

record 'z Thumbnail =
  File :: "'z File_scheme"
  Width :: int
  Height :: int

record 'z Message =
  Photo :: "'z Thumbnail list"

text \<open>
  A \<open>Recipient\<close> is an interface with the one method \<open>Destination\<close>; the value
  here is what that method returns.
\<close>

record Recipient =
  Destination :: string

text \<open>The struct \<open>responseRecieved\<close> that the reply is decoded into.\<close>

record ('z, 'y) response =
  Ok :: bool
  Result :: "('z, 'y) Message_scheme"
  Description :: string

text \<open>
  What \<open>SendPhoto\<close> calls and the source files do not contain: \<open>embedSendOptions\<close>
  (it returns the map it was given, changed), the method \<open>Exists\<close> of \<open>File\<close>,
  \<open>sendCommand\<close> and \<open>sendFile\<close> (each returns the bytes and an error), and
  \<open>json.Unmarshal\<close> into \<open>responseRecieved\<close> (returns the struct filled in and
  an error).
\<close>

type_synonym params = "string \<rightharpoonup> string"

record ('z, 'y, 'o) api =
  embedSendOptions :: "params \<Rightarrow> 'o \<Rightarrow> params"
  Exists :: "'z File_scheme \<Rightarrow> bool"
  sendCommand :: "string \<Rightarrow> string \<Rightarrow> params \<Rightarrow> string \<times> string option"
  sendFile :: "string \<Rightarrow> string \<Rightarrow> string \<Rightarrow> string \<Rightarrow> params \<Rightarrow> string \<times> string option"
  Unmarshal :: "string \<Rightarrow> ('z, 'y) response \<times> string option"

text \<open>
  A call either panics or returns. \<open>SendPhoto\<close> returns an error and changes the
  photo its pointer argument names: the result is that photo and the error.
\<close>

datatype 'a outcome = Panic | Return 'a

text \<open>The first part of \<open>SendPhoto\<close>: the parameters and the request.\<close>

definition sendPhoto_call ::
  "('z, 'y, 'o) api \<Rightarrow> ('m, 'q, 'c) Bot \<Rightarrow> Recipient \<Rightarrow> 'z Photo \<Rightarrow> 'o option \<Rightarrow>
   string \<times> string option" where
  "sendPhoto_call api b recipient photo options =
     (let params = [''chat_id'' \<mapsto> Destination recipient, ''caption'' \<mapsto> Caption photo];
          params = (case options of
                      None \<Rightarrow> params
                    | Some opts \<Rightarrow> embedSendOptions api params opts)
      in if Exists api (Photo.File photo)
         then sendCommand api ''sendPhoto'' (Token b)
                (params(''photo'' \<mapsto> FileID (Photo.File photo)))
         else sendFile api ''sendPhoto'' (Token b) ''photo'' (filename (Photo.File photo)) params)"

text \<open>
  \<open>SendPhoto\<close>. Indexing a slice outside \<open>0 \<le> i < len\<close> panics; the index here is
  \<open>len - 1\<close>.
\<close>

definition SendPhoto ::
  "('z, 'y, 'o) api \<Rightarrow> ('m, 'q, 'c) Bot \<Rightarrow> Recipient \<Rightarrow> 'z Photo \<Rightarrow> 'o option \<Rightarrow>
   ('z Photo \<times> string option) outcome" where
  "SendPhoto api b recipient photo options =
     (case sendPhoto_call api b recipient photo options of
        (responseJSON, Some err) \<Rightarrow> Return (photo, Some err)
      | (responseJSON, None) \<Rightarrow>
          (case Unmarshal api responseJSON of
             (responseRecieved, Some err) \<Rightarrow> Return (photo, Some err)
           | (responseRecieved, None) \<Rightarrow>
               if \<not> Ok responseRecieved
               then Return (photo, Some (''telebot: '' @ Description responseRecieved))
               else
                 (let thumbnails = Photo (Result responseRecieved);
                      i = int (length thumbnails) - 1
                  in if i < 0 \<or> int (length thumbnails) \<le> i then Panic
                     else Return
                       (photo\<lparr>Photo.File := (Thumbnail.File (thumbnails ! nat i))
                                 \<lparr>filename := filename (Photo.File photo)\<rparr>\<rparr>,
                        None))))"

section \<open>Properties of the poll loop\<close>

subsection \<open>Helper lemmas\<close>

lemma Index_sublist: "Index s substr > - 1 \<longleftrightarrow> sublist substr s"
  by (induction s) (auto simp: Let_def sublist_Cons_right)

lemma calls_of_append: "calls_of (xs @ ys) = calls_of xs @ calls_of ys"
  by (induction xs rule: calls_of.induct) auto

lemma sleeps_of_append: "sleeps_of (xs @ ys) = sleeps_of xs @ sleeps_of ys"
  by (induction xs rule: sleeps_of.induct) auto

lemma route_trace: "trace (route u w) = trace w"
  by (simp add: route_def split: option.splits)

lemma range_updates_trace: "trace (range_updates us w) = trace w"
  by (induction us arbitrary: w) (simp_all add: route_trace)

lemma div_le_dividend_int: "0 \<le> (a::int) \<Longrightarrow> 0 < d \<Longrightarrow> a div d \<le> a"
  using zdiv_mono2 [of a 1 d] by simp

lemma abs_sdiv_le:
  fixes x :: int
  assumes "0 < d"
  shows "\<bar>x sdiv d\<bar> \<le> \<bar>x\<bar>"
proof -
  have "\<bar>x sdiv d\<bar> = \<bar>x\<bar> div d"
    using assms
    by (cases "x = 0")
      (simp_all add: signed_divide_int_def abs_mult abs_sgn_eq pos_imp_zdiv_nonneg_iff)
  also have "\<dots> \<le> \<bar>x\<bar>"
    using assms by (intro div_le_dividend_int) simp_all
  finally show ?thesis .
qed

text \<open>The conversion to seconds never wraps: it is the truncated quotient itself.\<close>

lemma sint_seconds: "sint (seconds t) = sint t sdiv 1000000000"
proof -
  have b: "- (2 ^ 63) \<le> sint t" "sint t < 2 ^ 63"
    using sint_ge [of t] sint_lt [of t] by simp_all
  have "\<bar>sint t sdiv 1000000000\<bar> \<le> \<bar>sint t\<bar>"
    by (rule abs_sdiv_le) simp
  moreover have "sint t = - (2 ^ 63) \<Longrightarrow> sint t sdiv 1000000000 \<noteq> 2 ^ 63"
    by (simp add: signed_divide_int_def)
  ultimately have "- (2 ^ 63) \<le> sint t sdiv 1000000000" "sint t sdiv 1000000000 < 2 ^ 63"
    using b by linarith+
  then show ?thesis
    by (simp add: seconds_def Second_def sint_sbintrunc' signed_take_bit_int_eq_self)
qed

text \<open>
  The loop returns exactly at the first iteration whose \<open>select\<close> finds \<open>stop\<close> ready,
  in the world the iterations before it have made.
\<close>

lemma loop_first_stop:
  "stop_ready e (i + n) \<Longrightarrow> \<forall>k<n. \<not> stop_ready e (i + k) \<Longrightarrow>
   loop e b t i w = Some (iterations e b t i n w)"
proof (induction n arbitrary: i w)
  case 0
  then show ?case by (subst loop.simps) simp
next
  case (Suc n)
  have "\<not> stop_ready e i"
    using Suc.prems(2) by (metis add.right_neutral zero_less_Suc)
  moreover have "loop e b t (Suc i) (fetch b t (getUpdates e i) w) =
      Some (iterations e b t (Suc i) n (fetch b t (getUpdates e i) w))"
    using Suc.prems by (intro Suc.IH) (auto simp: less_Suc_eq_0_disj)
  ultimately show ?case by (subst loop.simps) simp
qed

lemma loop_returns_stop:
  assumes "loop e b t i w = Some y"
  shows "\<exists>n. stop_ready e (i + n)"
proof (rule loop.raw_induct [where P = "\<lambda>e b t i w y. \<exists>n. stop_ready e (i + n)", OF _ assms])
  fix loop' :: "('a, 'b, 'c) env \<Rightarrow> ('a, 'b, 'c) Bot \<Rightarrow> Duration \<Rightarrow> nat \<Rightarrow>
    ('a, 'b, 'c) world \<Rightarrow> ('a, 'b, 'c) world option"
  fix e b t i w y
  assume IH: "\<And>e b t i w y. loop' e b t i w = Some y \<Longrightarrow> \<exists>n. stop_ready e (i + n)"
    and eq: "(if stop_ready e i then Some w
              else loop' e b t (Suc i) (fetch b t (getUpdates e i) w)) = Some y"
  show "\<exists>n. stop_ready e (i + n)"
  proof (cases "stop_ready e i")
    case True
    then show ?thesis by (intro exI [of _ 0]) simp
  next
    case False
    with eq have "loop' e b t (Suc i) (fetch b t (getUpdates e i) w) = Some y"
      by simp
    from IH [OF this] obtain n where "stop_ready e (Suc i + n)" ..
    then show ?thesis by (intro exI [of _ "Suc n"]) simp
  qed
qed

lemma iterations_Suc_right:
  "iterations e b t i (Suc n) w = fetch b t (getUpdates e (i + n)) (iterations e b t i n w)"
  by (induction n arbitrary: i w) simp_all

lemma fetch_calls:
  "calls_of (trace (fetch b t reply w)) =
   calls_of (trace w) @ [(Token b, latestUpdate w + 1, seconds t)]"
  by (cases reply)
    (simp_all add: fetch_def on_error_def Let_def calls_of_append range_updates_trace)

lemma iterations_calls:
  "calls_of (trace (iterations e b t i n w)) =
   calls_of (trace w) @
   map (\<lambda>k. (Token b, latestUpdate (iterations e b t i k w) + 1, seconds t)) [0..<n]"
proof (induction n)
  case 0
  then show ?case by simp
next
  case (Suc n)
  show ?case
    unfolding iterations_Suc_right [of e b t i n w] fetch_calls Suc.IH
    by simp
qed

lemma on_error_fields:
  "latestUpdate (on_error b err w) = latestUpdate w"
  "messages (on_error b err w) = messages w"
  "queries (on_error b err w) = queries w"
  "callbacks (on_error b err w) = callbacks w"
  by (simp_all add: on_error_def Let_def)

lemma fetch_error_fields:
  "latestUpdate (fetch b t (Inl err) w) = latestUpdate w"
  "messages (fetch b t (Inl err) w) = messages w"
  "queries (fetch b t (Inl err) w) = queries w"
  "callbacks (fetch b t (Inl err) w) = callbacks w"
  by (simp_all add: fetch_def Let_def on_error_fields)

lemma fetch_error_trace:
  "trace (fetch b t (Inl err) w) =
   trace w @ GetUpdates (Token b) (latestUpdate w + 1) (seconds t) #
     Println [''failed to get updates:'', err] #
     (if sublist ''terminated by other long poll or webhook'' err
      then [Println [''applying sleep-lock for failover instances''], Sleep (MultiWait b)]
      else [])"
  by (simp add: fetch_def on_error_def Let_def Index_sublist)

lemma fetch_ok_trace:
  "trace (fetch b t (Inr us) w) =
   trace w @ [GetUpdates (Token b) (latestUpdate w + 1) (seconds t)]"
  by (simp add: fetch_def Let_def range_updates_trace)

lemma map_filter_append:
  "List.map_filter f (xs @ ys) = List.map_filter f xs @ List.map_filter f ys"
  by (simp add: List.map_filter_def)

lemma route_sent:
  "messages (route u w) = map_option (\<lambda>sent. sent @ message_events [u]) (messages w)"
  "queries (route u w) = map_option (\<lambda>sent. sent @ query_events [u]) (queries w)"
  "callbacks (route u w) = map_option (\<lambda>sent. sent @ callback_events [u]) (callbacks w)"
  by (auto simp: route_def message_events_def query_events_def callback_events_def
      List.map_filter_simps option.map_ident split: option.splits)

lemma range_updates_sent:
  "messages (range_updates us w) = map_option (\<lambda>sent. sent @ message_events us) (messages w)"
  "queries (range_updates us w) = map_option (\<lambda>sent. sent @ query_events us) (queries w)"
  "callbacks (range_updates us w) = map_option (\<lambda>sent. sent @ callback_events us) (callbacks w)"
proof (induction us arbitrary: w)
  case Nil
  {
    case 1 show ?case by (simp add: message_events_def List.map_filter_simps option.map_ident)
  next
    case 2 show ?case by (simp add: query_events_def List.map_filter_simps option.map_ident)
  next
    case 3 show ?case by (simp add: callback_events_def List.map_filter_simps option.map_ident)
  }
next
  case (Cons u us)
  have m: "message_events (u # us) = message_events [u] @ message_events us"
    and q: "query_events (u # us) = query_events [u] @ query_events us"
    and c: "callback_events (u # us) = callback_events [u] @ callback_events us"
    unfolding message_events_def query_events_def callback_events_def
    by (simp_all only: map_filter_append [symmetric] append_Cons append_Nil)
  {
    case 1 show ?case
      by (simp add: Cons.IH(1) route_sent(1) m option.map_comp comp_def)
  next
    case 2 show ?case
      by (simp add: Cons.IH(2) route_sent(2) q option.map_comp comp_def)
  next
    case 3 show ?case
      by (simp add: Cons.IH(3) route_sent(3) c option.map_comp comp_def)
  }
qed


lemma fetch_sent:
  "messages (fetch b t reply w) =
     map_option (\<lambda>sent. sent @ message_events (case reply of Inl err \<Rightarrow> [] | Inr us \<Rightarrow> us))
       (messages w)"
  "queries (fetch b t reply w) =
     map_option (\<lambda>sent. sent @ query_events (case reply of Inl err \<Rightarrow> [] | Inr us \<Rightarrow> us))
       (queries w)"
  "callbacks (fetch b t reply w) =
     map_option (\<lambda>sent. sent @ callback_events (case reply of Inl err \<Rightarrow> [] | Inr us \<Rightarrow> us))
       (callbacks w)"
proof -
  have nil: "message_events ([] :: ('a, 'b, 'c) Update list) = []"
    "query_events ([] :: ('a, 'b, 'c) Update list) = []"
    "callback_events ([] :: ('a, 'b, 'c) Update list) = []"
    by (simp_all add: message_events_def query_events_def callback_events_def
        List.map_filter_simps)
  show "messages (fetch b t reply w) =
     map_option (\<lambda>sent. sent @ message_events (case reply of Inl err \<Rightarrow> [] | Inr us \<Rightarrow> us))
       (messages w)"
    by (cases reply)
      (simp_all add: fetch_def Let_def on_error_fields range_updates_sent nil option.map_ident)
  show "queries (fetch b t reply w) =
     map_option (\<lambda>sent. sent @ query_events (case reply of Inl err \<Rightarrow> [] | Inr us \<Rightarrow> us))
       (queries w)"
    by (cases reply)
      (simp_all add: fetch_def Let_def on_error_fields range_updates_sent nil option.map_ident)
  show "callbacks (fetch b t reply w) =
     map_option (\<lambda>sent. sent @ callback_events (case reply of Inl err \<Rightarrow> [] | Inr us \<Rightarrow> us))
       (callbacks w)"
    by (cases reply)
      (simp_all add: fetch_def Let_def on_error_fields range_updates_sent nil option.map_ident)
qed

lemma returned_Suc:
  "returned e i (Suc n) =
   returned e i n @ (case getUpdates e (i + n) of Inl err \<Rightarrow> [] | Inr us \<Rightarrow> us)"
  by (simp add: returned_def)

lemma events_append:
  "message_events (xs @ ys) = message_events xs @ message_events ys"
  "query_events (xs @ ys) = query_events xs @ query_events ys"
  "callback_events (xs @ ys) = callback_events xs @ callback_events ys"
  by (simp_all add: message_events_def query_events_def callback_events_def map_filter_append)

text \<open>
  Where the cursor can be after a batch: where it was, or at the identifier of one of
  the updates. So a batch whose identifiers are all at or above the cursor, in the
  signed order of \<open>int64\<close>, never moves it down; and with all three channels given,
  no update is skipped and the cursor ends at the last identifier of the batch.
\<close>

lemma route_cursor:
  "latestUpdate (route u w) = latestUpdate w \<or> latestUpdate (route u w) = Update.ID u"
  by (simp add: route_def split: option.splits)

lemma range_updates_cursor:
  "latestUpdate (range_updates us w) \<in> insert (latestUpdate w) (Update.ID ` set us)"
proof (induction us arbitrary: w)
  case Nil
  show ?case by simp
next
  case (Cons u us)
  from Cons.IH [of "route u w"] route_cursor [of u w] show ?case by auto
qed

lemma fetch_cursor_monotone:
  assumes "\<forall>u\<in>set us. latestUpdate w \<le>s Update.ID u"
  shows "latestUpdate w \<le>s latestUpdate (fetch b t (Inr us) w)"
proof -
  have "latestUpdate (fetch b t (Inr us) w) \<in> insert (latestUpdate w) (Update.ID ` set us)"
    using range_updates_cursor [of us "w\<lparr>trace := trace w @ [GetUpdates (Token b) (latestUpdate w + 1) (seconds t)]\<rparr>"]
    by (simp add: fetch_def Let_def)
  with assms show ?thesis by (auto simp: word_sle_eq)
qed

lemma route_open_cursor:
  "messages w \<noteq> None \<Longrightarrow> queries w \<noteq> None \<Longrightarrow> callbacks w \<noteq> None \<Longrightarrow>
   latestUpdate (route u w) = Update.ID u"
  by (auto simp: route_def split: option.splits)

lemma range_updates_open_cursor:
  "messages w \<noteq> None \<Longrightarrow> queries w \<noteq> None \<Longrightarrow> callbacks w \<noteq> None \<Longrightarrow> us \<noteq> [] \<Longrightarrow>
   latestUpdate (range_updates us w) = Update.ID (last us)"
proof (induction us arbitrary: w)
  case Nil
  then show ?case by simp
next
  case (Cons u us)
  have open': "messages (route u w) \<noteq> None" "queries (route u w) \<noteq> None"
    "callbacks (route u w) \<noteq> None"
    using Cons.prems by (simp_all add: route_sent)
  show ?case
  proof (cases "us = []")
    case True
    then show ?thesis using Cons.prems by (simp add: route_open_cursor)
  next
    case False
    then show ?thesis using Cons.IH [OF open' False] by simp
  qed
qed

lemma seconds_5s: "seconds 5000000000 = 5"
  by (simp add: seconds_def Second_def signed_divide_int_def)

subsection \<open>Events whose channel is nil\<close>

text \<open>
  C1. An event whose channel is \<open>nil\<close> is to be sent nowhere while the cursor still
  moves to its identifier; from cursor 0, the batch of a message 1, a callback 2 and
  an inline query 3, with only the message channel given, is to leave message 1 on
  that channel, nothing elsewhere, and the cursor at 3. The code sends message 1 and
  nothing else, but the \<open>continue\<close> taken for the callback and for the inline
  query skips the assignment to the cursor: it stays at 1.
\<close>

theorem nil_sink_scenario_cursor:
  "fetch b timeout
     (Inr [\<lparr>ID = 1, Payload = Some ''m1'', Callback = None, Query = None\<rparr>,
           \<lparr>ID = 2, Payload = None, Callback = Some ''c2'', Query = None\<rparr>,
           \<lparr>ID = 3, Payload = None, Callback = None, Query = Some ''q3''\<rparr>])
     (start (Some []) None None) =
   \<lparr>latestUpdate = 1, messages = Some [''m1''], queries = None, callbacks = None,
    trace = [GetUpdates (Token b) 1 (seconds timeout)]\<rparr>"
  by (simp add: fetch_def start_def route_def)

text \<open>
  C2. Under the server's contract (identifiers ascending within a batch and at least
  the requested minimum) the cursor is never to decrease, and after a batch it is to
  be the identifier of the last event processed. The cursor indeed never decreases
  (\<open>fetch_cursor_monotone\<close>), but an event skipped for a \<open>nil\<close> channel does
  not move it: from cursor 0, with only the message channel given, the batch of a
  message 1 and a callback 2 meets the contract for the request of identifier 1, and
  leaves the cursor at 1 while the last event of the batch is 2.
\<close>

theorem nil_sink_last_event_cursor:
  "(let u1 = \<lparr>ID = 1, Payload = Some ''m1'', Callback = None, Query = None\<rparr>;
        u2 = \<lparr>ID = 2, Payload = None, Callback = Some ''c2'', Query = None\<rparr>;
        w = fetch b timeout (Inr [u1, u2]) (start (Some []) None None)
    in trace w = [GetUpdates (Token b) 1 (seconds timeout)] \<and>
       1 \<le>s Update.ID u1 \<and> Update.ID u1 <s Update.ID u2 \<and>
       Update.ID (last [u1, u2]) = 2 \<and> latestUpdate w = 1)"
  by (simp add: Let_def fetch_def start_def route_def word_sle_eq word_sless_alt)

subsection \<open>Classification of one update\<close>

text \<open>
  C6. The variants of an update are tested in the order message, inline query,
  callback, and the update goes to at most one channel: a message, when present, is
  the only thing sent, whatever else is populated; an inline query is sent only
  when there is no message; a callback only when there is neither. An update with no
  variant is sent nowhere, nothing else happens, and the cursor moves to its
  identifier.
\<close>

theorem route_priority:
  "(Payload u = Some m \<longrightarrow>
      messages (route u w) = map_option (\<lambda>sent. sent @ [m]) (messages w) \<and>
      queries (route u w) = queries w \<and> callbacks (route u w) = callbacks w) \<and>
   (Payload u = None \<and> Query u = Some q \<longrightarrow>
      messages (route u w) = messages w \<and>
      queries (route u w) = map_option (\<lambda>sent. sent @ [q]) (queries w) \<and>
      callbacks (route u w) = callbacks w) \<and>
   (Payload u = None \<and> Query u = None \<and> Callback u = Some c \<longrightarrow>
      messages (route u w) = messages w \<and> queries (route u w) = queries w \<and>
      callbacks (route u w) = map_option (\<lambda>sent. sent @ [c]) (callbacks w)) \<and>
   (Payload u = None \<and> Query u = None \<and> Callback u = None \<longrightarrow>
      route u w = w\<lparr>latestUpdate := Update.ID u\<rparr>)"
  by (simp add: route_def split: option.splits)

theorem route_priority_witness:
  "(let u = \<lparr>ID = 7, Payload = Some ''m'', Callback = Some ''c'', Query = Some ''q''\<rparr>;
        w = route u (start (Some []) (Some []) (Some []))
    in Payload u = Some ''m'' \<and>
       messages w = Some [''m''] \<and> queries w = Some [] \<and> callbacks w = Some []) \<and>
   (let u = \<lparr>ID = 8, Payload = None :: string option, Callback = Some ''c'', Query = Some ''q''\<rparr>;
        w = route u (start (Some []) (Some []) (Some []))
    in Payload u = None \<and> Query u = Some ''q'' \<and>
       messages w = Some [] \<and> queries w = Some [''q''] \<and> callbacks w = Some []) \<and>
   (let u = \<lparr>ID = 9, Payload = None :: string option, Callback = Some ''c'',
              Query = None :: string option\<rparr>;
        w = route u (start (Some []) (Some []) (Some []))
    in Payload u = None \<and> Query u = None \<and> Callback u = Some ''c'' \<and>
       messages w = Some [] \<and> queries w = Some [] \<and> callbacks w = Some [''c'']) \<and>
   (let u = \<lparr>ID = 10, Payload = None :: string option, Callback = None :: string option,
              Query = None :: string option\<rparr>;
        w = route u (start (Some []) (Some []) (Some []))
    in Payload u = None \<and> Query u = None \<and> Callback u = None \<and>
       w = \<lparr>latestUpdate = 10, messages = Some [], queries = Some [], callbacks = Some [],
            trace = []\<rparr>)"
  using
    route_priority [of "\<lparr>ID = 7, Payload = Some ''m'', Callback = Some ''c'', Query = Some ''q''\<rparr>"
      "''m''" "start (Some []) (Some []) (Some [])"]
    route_priority [of "\<lparr>ID = 8, Payload = None, Callback = Some ''c'', Query = Some ''q''\<rparr>"
      _ "start (Some ([] :: string list)) (Some []) (Some [])" "''q''"]
    route_priority [of "\<lparr>ID = 9, Payload = None, Callback = Some ''c'', Query = None\<rparr>"
      _ "start (Some ([] :: string list)) (Some ([] :: string list)) (Some [])" _ "''c''"]
    route_priority [of "\<lparr>ID = 10, Payload = None, Callback = None, Query = None\<rparr>"
      _ "start (Some ([] :: string list)) (Some ([] :: string list)) (Some ([] :: string list))"]
  by (simp add: start_def)

subsection \<open>The request of each iteration\<close>

text \<open>
  C3. Every iteration that fetches calls the transport with the cursor of that
  moment plus one and with the timeout in whole seconds (the quotient by
  \<open>time.Second\<close>, truncated towards zero); the first request of \<open>poll\<close> asks
  for identifier 1.
\<close>

theorem poll_request:
  "calls_of (trace (iterations e b timeout i n w)) =
     calls_of (trace w) @
     map (\<lambda>k. (Token b, latestUpdate (iterations e b timeout i k w) + 1, seconds timeout)) [0..<n] \<and>
   sint (seconds timeout) = sint timeout sdiv 1000000000 \<and>
   hd (calls_of (trace (iterations e b timeout 0 (Suc n) (start ms qs cs)))) =
     (Token b, 1, seconds timeout)"
proof -
  have "calls_of (trace (iterations e b timeout 0 (Suc n) (start ms qs cs))) =
    (Token b, 1, seconds timeout) #
    map (\<lambda>k. (Token b, latestUpdate (iterations e b timeout 0 k (start ms qs cs)) + 1, seconds timeout)) [1..<Suc n]"
    unfolding iterations_calls [of e b timeout 0 "Suc n"]
    by (simp add: upt_rec [of 0] start_def del: upt_Suc iterations.simps(2))
  then show ?thesis
    by (simp add: iterations_calls sint_seconds del: upt_Suc iterations.simps)
qed

subsection \<open>A failed fetch\<close>

text \<open>
  C4. When the transport call returns an error, the cursor and the three channels
  are as before, the loop does not return but goes on to its next iteration, and the
  fetch after the failed one asks for the same minimum identifier.
\<close>

theorem fetch_error:
  "latestUpdate (fetch b t (Inl err) w) = latestUpdate w \<and>
   messages (fetch b t (Inl err) w) = messages w \<and>
   queries (fetch b t (Inl err) w) = queries w \<and>
   callbacks (fetch b t (Inl err) w) = callbacks w \<and>
   (\<not> stop_ready e i \<and> getUpdates e i = Inl err \<longrightarrow>
      loop e b t i w = loop e b t (Suc i) (fetch b t (Inl err) w)) \<and>
   calls_of (trace (fetch b t reply (fetch b t (Inl err) w))) =
     calls_of (trace w) @
     [(Token b, latestUpdate w + 1, seconds t), (Token b, latestUpdate w + 1, seconds t)]"
proof -
  have "\<not> stop_ready e i \<Longrightarrow> getUpdates e i = Inl err \<Longrightarrow>
      loop e b t i w = loop e b t (Suc i) (fetch b t (Inl err) w)"
    by (subst loop.simps) simp
  then show ?thesis
    by (simp add: fetch_error_fields fetch_calls)
qed

theorem fetch_error_witness:
  "(let e = \<lparr>stop_ready = (\<lambda>k. k = 1),
              getUpdates = (\<lambda>k. Inl ''boom'' :: string + (string, string, string) Update list)\<rparr>;
        b = \<lparr>Token = ''T'',
              Identity = \<lparr>User.ID = 1, FirstName = ''f'', LastName = ''l'', Username = ''u''\<rparr>,
              Messages = None, Queries = None, Callbacks = None, MultiWait = 3000000000\<rparr>;
        w = start (Some []) None None
    in \<not> stop_ready e 0 \<and> getUpdates e 0 = Inl ''boom'' \<and>
       loop e b 5000000000 0 w = loop e b 5000000000 (Suc 0) (fetch b 5000000000 (Inl ''boom'') w) \<and>
       latestUpdate (fetch b 5000000000 (Inl ''boom'') w) = 0)"
  using fetch_error [of
      "\<lparr>Token = ''T'',
        Identity = \<lparr>User.ID = 1, FirstName = ''f'', LastName = ''l'', Username = ''u''\<rparr>,
        Messages = None, Queries = None, Callbacks = None, MultiWait = 3000000000\<rparr>"
      5000000000 "''boom''" "start (Some []) None None"
      "\<lparr>stop_ready = (\<lambda>k. k = 1),
        getUpdates = (\<lambda>k. Inl ''boom'' :: string + (string, string, string) Update list)\<rparr>"
      0]
  by (simp add: Let_def start_def)

subsection \<open>The cooldown\<close>

text \<open>
  C5. After a transport error the loop sleeps, for \<open>MultiWait\<close>, exactly when the
  error text contains "terminated by other long poll or webhook"; any other error,
  and a success, sleep not at all. One such conflict error followed by a success
  gives one sleep, between the two fetches, and both fetches ask for the same
  minimum identifier.
\<close>

theorem conflict_cooldown:
  "sleeps_of (trace (fetch b t (Inl err) w)) =
     sleeps_of (trace w) @
     (if sublist ''terminated by other long poll or webhook'' err then [MultiWait b] else []) \<and>
   sleeps_of (trace (fetch b t (Inr us) w)) = sleeps_of (trace w) \<and>
   (sublist ''terminated by other long poll or webhook'' err \<longrightarrow>
      trace (fetch b t (Inr us) (fetch b t (Inl err) w)) =
        trace w @
        [GetUpdates (Token b) (latestUpdate w + 1) (seconds t),
         Println [''failed to get updates:'', err],
         Println [''applying sleep-lock for failover instances''],
         Sleep (MultiWait b),
         GetUpdates (Token b) (latestUpdate w + 1) (seconds t)])"
  by (simp add: fetch_error_trace fetch_ok_trace sleeps_of_append fetch_error_fields)

theorem conflict_cooldown_witness:
  "(let err = ''Conflict: terminated by other long poll or webhook'';
        b = \<lparr>Token = ''T'',
              Identity = \<lparr>User.ID = 1, FirstName = ''f'', LastName = ''l'', Username = ''u''\<rparr>,
              Messages = None :: string chan, Queries = None :: string chan,
              Callbacks = None :: string chan, MultiWait = 3000000000\<rparr>;
        w = start (Some []) (None :: string chan) (None :: string chan)
    in sublist ''terminated by other long poll or webhook'' err \<and>
       trace (fetch b 5000000000 (Inr [\<lparr>ID = 1, Payload = Some ''m1'', Callback = None, Query = None\<rparr>])
                (fetch b 5000000000 (Inl err) w)) =
         [GetUpdates ''T'' 1 5,
          Println [''failed to get updates:'', err],
          Println [''applying sleep-lock for failover instances''],
          Sleep 3000000000,
          GetUpdates ''T'' 1 5])"
proof -
  have s: "sublist ''terminated by other long poll or webhook''
      ''Conflict: terminated by other long poll or webhook''"
    using sublist_appendI [of "''terminated by other long poll or webhook''" "''Conflict: ''" "[]"]
    by simp
  show ?thesis
    using s conflict_cooldown [of
        "\<lparr>Token = ''T'',
          Identity = \<lparr>User.ID = 1, FirstName = ''f'', LastName = ''l'', Username = ''u''\<rparr>,
          Messages = None :: string chan, Queries = None :: string chan,
          Callbacks = None :: string chan, MultiWait = 3000000000\<rparr>"
        5000000000 "''Conflict: terminated by other long poll or webhook''"
        "start (Some []) (None :: string chan) (None :: string chan)"
        "[\<lparr>ID = 1, Payload = Some ''m1'', Callback = None, Query = None\<rparr>]"]
    by (simp add: Let_def start_def seconds_5s)
qed

subsection \<open>Delivery\<close>

text \<open>
  C7. Each channel that is not \<open>nil\<close> receives, after what it held before, exactly
  the values it is due from the updates the transport returned, each once and in
  the order returned, within a batch and from one batch to the next. A \<open>nil\<close>
  channel stays \<open>nil\<close>.
\<close>

theorem delivery_order:
  "messages (iterations e b t i n w) =
     map_option (\<lambda>sent. sent @ message_events (returned e i n)) (messages w) \<and>
   queries (iterations e b t i n w) =
     map_option (\<lambda>sent. sent @ query_events (returned e i n)) (queries w) \<and>
   callbacks (iterations e b t i n w) =
     map_option (\<lambda>sent. sent @ callback_events (returned e i n)) (callbacks w)"
proof (induction n)
  case 0
  show ?case
    by (simp add: returned_def message_events_def query_events_def callback_events_def
        List.map_filter_simps option.map_ident)
next
  case (Suc n)
  show ?case
    unfolding iterations_Suc_right [of e b t i n w] fetch_sent returned_Suc events_append
    by (simp add: Suc.IH option.map_comp comp_def)
qed

subsection \<open>Termination\<close>

text \<open>
  C8. \<open>poll\<close> returns if and only if some iteration finds the stop signal. It then
  returns at the first such iteration \<open>n\<close>, having made exactly the \<open>n\<close> fetches
  of the iterations before it and none after; with no such iteration it never
  returns. \<open>Listen\<close> returns when \<open>poll\<close> does, and \<open>wg.Done()\<close> is the last
  thing it does.
\<close>

theorem poll_returns_iff_stop:
  "(poll e b ms qs cs t \<noteq> None \<longleftrightarrow> (\<exists>n. stop_ready e n)) \<and>
   (stop_ready e n \<and> (\<forall>k<n. \<not> stop_ready e k) \<longrightarrow>
      poll e b ms qs cs t = Some (iterations e b t 0 n (start ms qs cs)) \<and>
      length (calls_of (trace (iterations e b t 0 n (start ms qs cs)))) = n) \<and>
   Listen e b ms qs cs t =
     map_option (\<lambda>w. w\<lparr>trace := trace w @ [Done]\<rparr>) (poll e b ms qs cs t)"
proof -
  have first: "poll e b ms qs cs t = Some (iterations e b t 0 n (start ms qs cs))"
    if "stop_ready e n" "\<forall>k<n. \<not> stop_ready e k" for n
    using loop_first_stop [of e 0 n b t "start ms qs cs"] that by (simp add: poll_def)
  have a: "poll e b ms qs cs t \<noteq> None" if "stop_ready e n" for n
  proof -
    let ?m = "LEAST k. stop_ready e k"
    have l: "stop_ready e ?m"
      using that by (rule LeastI)
    have m: "\<forall>k<?m. \<not> stop_ready e k"
      using not_less_Least by blast
    from first [OF l m] show ?thesis by simp
  qed
  have b: "\<exists>n. stop_ready e n" if "poll e b ms qs cs t \<noteq> None"
  proof -
    from that obtain y where "loop e b t 0 (start ms qs cs) = Some y"
      by (auto simp: poll_def)
    from loop_returns_stop [OF this] show ?thesis by simp
  qed
  have c: "length (calls_of (trace (iterations e b t 0 n (start ms qs cs)))) = n"
    by (simp add: iterations_calls start_def)
  have d: "Listen e b ms qs cs t =
     map_option (\<lambda>w. w\<lparr>trace := trace w @ [Done]\<rparr>) (poll e b ms qs cs t)"
    by (simp add: Listen_def split: option.splits)
  have ab: "poll e b ms qs cs t \<noteq> None \<longleftrightarrow> (\<exists>n. stop_ready e n)"
    using a b by blast
  have e: "stop_ready e n \<and> (\<forall>k<n. \<not> stop_ready e k) \<longrightarrow>
      poll e b ms qs cs t = Some (iterations e b t 0 n (start ms qs cs)) \<and>
      length (calls_of (trace (iterations e b t 0 n (start ms qs cs)))) = n"
    using first [of n] c by blast
  from ab e d show ?thesis by (intro conjI)
qed

theorem poll_returns_iff_stop_witness:
  "(let e = \<lparr>stop_ready = (\<lambda>k. k = 1),
              getUpdates = (\<lambda>k. Inr [\<lparr>ID = 4, Payload = Some ''m4'', Callback = None, Query = None\<rparr>])\<rparr>;
        b = \<lparr>Token = ''T'',
              Identity = \<lparr>User.ID = 1, FirstName = ''f'', LastName = ''l'', Username = ''u''\<rparr>,
              Messages = None, Queries = None, Callbacks = None, MultiWait = 3000000000\<rparr>;
        ms = Some []; qs = (None :: string list option); cs = (None :: string list option)
    in stop_ready e 1 \<and> (\<forall>k<1. \<not> stop_ready e k) \<and>
       poll e b ms qs cs 5000000000 =
         Some \<lparr>latestUpdate = 4, messages = Some [''m4''], queries = None, callbacks = None,
               trace = [GetUpdates ''T'' 1 5]\<rparr> \<and>
       Listen e b ms qs cs 5000000000 =
         Some \<lparr>latestUpdate = 4, messages = Some [''m4''], queries = None, callbacks = None,
               trace = [GetUpdates ''T'' 1 5, Done]\<rparr>)"
  using poll_returns_iff_stop [of
      "\<lparr>stop_ready = (\<lambda>k. k = 1),
        getUpdates = (\<lambda>k. Inr [\<lparr>ID = 4, Payload = Some ''m4'', Callback = None, Query = None\<rparr>])\<rparr>"
      "\<lparr>Token = ''T'',
        Identity = \<lparr>User.ID = 1, FirstName = ''f'', LastName = ''l'', Username = ''u''\<rparr>,
        Messages = None, Queries = None, Callbacks = None, MultiWait = 3000000000\<rparr>"
      "Some []" "None :: string list option" "None :: string list option" 5000000000 1]
  by (simp add: Let_def start_def fetch_def route_def seconds_5s)

section \<open>Properties of construction and \<open>SendPhoto\<close>\<close>

text \<open>
  C9. \<open>NewBot\<close> returns an error and no bot exactly when \<open>getMe\<close> returns an
  error, and that error is the one returned; when \<open>getMe\<close> succeeds it returns no
  error and a bot with the given token and the identity \<open>getMe\<close> returned.
\<close>

theorem NewBot_result:
  "((fst (NewBot getMe token) = None \<and> snd (NewBot getMe token) \<noteq> None) \<longleftrightarrow>
      snd (getMe token) \<noteq> None) \<and>
   (getMe token = (user, Some err) \<longrightarrow> NewBot getMe token = (None, Some err)) \<and>
   (getMe token = (user, None) \<longrightarrow>
      (\<exists>bot. NewBot getMe token = (Some bot, None) \<and> Token bot = token \<and> Identity bot = user))"
  by (auto simp: NewBot_def split: prod.splits option.splits)

theorem NewBot_result_witness:
  "(let getMe = (\<lambda>token. (\<lparr>User.ID = 0, FirstName = [], LastName = [], Username = []\<rparr>,
                           Some ''telebot: Unauthorized''))
    in getMe ''T'' =
         (\<lparr>User.ID = 0, FirstName = [], LastName = [], Username = []\<rparr>,
          Some ''telebot: Unauthorized'') \<and>
       (NewBot getMe ''T'' :: (string, string, string) Bot option \<times> string option) =
         (None, Some ''telebot: Unauthorized'')) \<and>
   (let me = \<lparr>User.ID = 42, FirstName = ''Bot'', LastName = [], Username = ''bot''\<rparr>;
        getMe = (\<lambda>token. (me, None))
    in getMe ''T'' = (me, None) \<and>
       (\<exists>bot :: (string, string, string) Bot.
          NewBot getMe ''T'' = (Some bot, None) \<and> Token bot = ''T'' \<and> Identity bot = me))"
  using
    NewBot_result [of
      "\<lambda>token. (\<lparr>User.ID = 0, FirstName = [], LastName = [], Username = []\<rparr>,
                 Some ''telebot: Unauthorized'')"
      "''T''" "\<lparr>User.ID = 0, FirstName = [], LastName = [], Username = []\<rparr>"
      "''telebot: Unauthorized''"]
    NewBot_result [of
      "\<lambda>token. (\<lparr>User.ID = 42, FirstName = ''Bot'', LastName = [], Username = ''bot''\<rparr>, None)"
      "''T''" "\<lparr>User.ID = 42, FirstName = ''Bot'', LastName = [], Username = ''bot''\<rparr>"]
  by (auto simp: Let_def)

text \<open>
  C10. When the request of \<open>SendPhoto\<close> succeeds and the reply decodes with
  \<open>Ok\<close> true, the photo's \<open>File\<close> becomes the \<open>File\<close> of the last thumbnail of
  the reply, except for \<open>filename\<close>, which keeps its value, and no error is
  returned, provided the reply has a thumbnail; with no thumbnail the index is out of
  range and the call panics.
\<close>

theorem SendPhoto_success:
  assumes "sendPhoto_call api b recipient photo options = (responseJSON, None)"
    and "Unmarshal api responseJSON = (r, None)"
    and "Ok r"
  shows "(Photo (Result r) \<noteq> [] \<longrightarrow>
            SendPhoto api b recipient photo options =
              Return (photo\<lparr>Photo.File := (Thumbnail.File (last (Photo (Result r))))
                                \<lparr>filename := filename (Photo.File photo)\<rparr>\<rparr>,
                      None)) \<and>
         (Photo (Result r) = [] \<longrightarrow> SendPhoto api b recipient photo options = Panic)"
  using assms
  by (auto simp: SendPhoto_def Let_def last_conv_nth nat_diff_distrib')

theorem SendPhoto_success_witness:
  "(let small = \<lparr>File = \<lparr>FileID = ''s1'', filename = []\<rparr>, Width = 90, Height = 60\<rparr>;
        large = \<lparr>File = \<lparr>FileID = ''s2'', filename = []\<rparr>, Width = 900, Height = 600\<rparr>;
        r = \<lparr>Ok = True, Result = \<lparr>Photo = [small, large]\<rparr>, Description = []\<rparr>;
        api = \<lparr>embedSendOptions = (\<lambda>params (opts :: unit). params),
                Exists = (\<lambda>f. FileID f \<noteq> []),
                sendCommand = (\<lambda>method token params. (''{ok}'', None)),
                sendFile = (\<lambda>method token name path params. (''{ok}'', None)),
                Unmarshal = (\<lambda>bytes. (r, None))\<rparr>;
        b = \<lparr>Token = ''T'',
              Identity = \<lparr>User.ID = 1, FirstName = ''f'', LastName = ''l'', Username = ''u''\<rparr>,
              Messages = None :: string chan, Queries = None :: string chan,
              Callbacks = None :: string chan, MultiWait = 0\<rparr>;
        photo = \<lparr>Photo.File = \<lparr>FileID = [], filename = ''/tmp/a.jpg''\<rparr>, Data = [], Caption = ''hi''\<rparr>
    in sendPhoto_call api b \<lparr>Destination = ''7''\<rparr> photo None = (''{ok}'', None) \<and>
       Unmarshal api ''{ok}'' = (r, None) \<and> Ok r \<and> Photo (Result r) \<noteq> [] \<and>
       SendPhoto api b \<lparr>Destination = ''7''\<rparr> photo None =
         Return (\<lparr>Photo.File = \<lparr>FileID = ''s2'', filename = ''/tmp/a.jpg''\<rparr>, Data = [],
                  Caption = ''hi''\<rparr>, None)) \<and>
   (let r = \<lparr>Ok = True, Result = \<lparr>Photo = []\<rparr>, Description = []\<rparr>;
        api = \<lparr>embedSendOptions = (\<lambda>params (opts :: unit). params),
                Exists = (\<lambda>f. FileID f \<noteq> []),
                sendCommand = (\<lambda>method token params. (''{ok}'', None)),
                sendFile = (\<lambda>method token name path params. (''{ok}'', None)),
                Unmarshal = (\<lambda>bytes. (r, None))\<rparr>;
        b = \<lparr>Token = ''T'',
              Identity = \<lparr>User.ID = 1, FirstName = ''f'', LastName = ''l'', Username = ''u''\<rparr>,
              Messages = None :: string chan, Queries = None :: string chan,
              Callbacks = None :: string chan, MultiWait = 0\<rparr>;
        photo = \<lparr>Photo.File = \<lparr>FileID = [], filename = ''/tmp/a.jpg''\<rparr>, Data = [], Caption = ''hi''\<rparr>
    in sendPhoto_call api b \<lparr>Destination = ''7''\<rparr> photo None = (''{ok}'', None) \<and>
       Unmarshal api ''{ok}'' = (r, None) \<and> Ok r \<and> Photo (Result r) = [] \<and>
       SendPhoto api b \<lparr>Destination = ''7''\<rparr> photo None = Panic)"
proof -
  let ?small = "\<lparr>File = \<lparr>FileID = ''s1'', filename = []\<rparr>, Width = 90, Height = 60\<rparr>"
  let ?large = "\<lparr>File = \<lparr>FileID = ''s2'', filename = []\<rparr>, Width = 900, Height = 600\<rparr>"
  let ?r1 = "\<lparr>Ok = True, Result = \<lparr>Photo = [?small, ?large]\<rparr>, Description = []\<rparr>"
  let ?r2 = "\<lparr>Ok = True, Result = \<lparr>Photo = [] :: unit Thumbnail list\<rparr>, Description = []\<rparr>"
  let ?api = "\<lambda>r. \<lparr>embedSendOptions = (\<lambda>params (opts :: unit). params),
                Exists = (\<lambda>f. FileID f \<noteq> []),
                sendCommand = (\<lambda>method token params. (''{ok}'', None)),
                sendFile = (\<lambda>method token name path params. (''{ok}'', None)),
                Unmarshal = (\<lambda>bytes. (r, None))\<rparr>"
  let ?b = "\<lparr>Token = ''T'',
              Identity = \<lparr>User.ID = 1, FirstName = ''f'', LastName = ''l'', Username = ''u''\<rparr>,
              Messages = None :: string chan, Queries = None :: string chan,
              Callbacks = None :: string chan, MultiWait = 0\<rparr>"
  let ?photo = "\<lparr>Photo.File = \<lparr>FileID = [], filename = ''/tmp/a.jpg''\<rparr>, Data = [], Caption = ''hi''\<rparr>"
  have c1: "sendPhoto_call (?api ?r1) ?b \<lparr>Destination = ''7''\<rparr> ?photo None = (''{ok}'', None)"
    and c2: "sendPhoto_call (?api ?r2) ?b \<lparr>Destination = ''7''\<rparr> ?photo None = (''{ok}'', None)"
    by (simp_all add: sendPhoto_call_def)
  have u1: "Unmarshal (?api ?r1) ''{ok}'' = (?r1, None)"
    and u2: "Unmarshal (?api ?r2) ''{ok}'' = (?r2, None)"
    by simp_all
  have o1: "Ok ?r1" and o2: "Ok ?r2"
    by simp_all
  from SendPhoto_success [OF c1 u1 o1] SendPhoto_success [OF c2 u2 o2] c1 c2
  show ?thesis
    by (simp add: Let_def)
qed

end
